theory Spec2Isabelle
  imports Main
begin

section \<open>Certificate lookup utilities of domain-admin (\<open>cert_util.py\<close>)\<close>

text \<open>
  The module fetches the TLS certificate of a host and flattens it into a summary.
  Python dictionaries are modelled as maps or records, exceptions as the left
  summand of a result type, and every call that leaves the module (sockets, the
  TLS handshake, name resolution, the date parser) as a field of a record of
  collaborators, so that the functions of the module are ordinary HOL functions.

  Strings are lists of 8-bit characters; a character stands for the code point of the
  same number, so the texts covered are those of code points below 256.
\<close>

subsection \<open>Exceptions\<close>

datatype error =
    ValueError
  | IndexError
  | KeyError
  | AttributeError
  | OSError
  | SSLError
  | ParserError
  | OverflowError

subsection \<open>Constants of the module\<close>

definition DATETIME_FORMAT :: string where
  "DATETIME_FORMAT = ''%Y-%m-%d %H:%M:%S''"

definition SSL_DEFAULT_PORT :: int where
  "SSL_DEFAULT_PORT = 443"

definition DEFAULT_SOCKET_TIMEOUT :: nat where
  "DEFAULT_SOCKET_TIMEOUT = 5"

subsection \<open>The built-ins used by the target parser\<close>

text \<open>
  \<open>str.split(sep)\<close> with a one-character separator: the text is cut at every
  occurrence of the separator, and empty pieces are kept. \<open>cur\<close> holds the piece being
  read, reversed.
\<close>

fun split_from :: "char \<Rightarrow> string \<Rightarrow> string \<Rightarrow> string list" where
  "split_from sep cur [] = [rev cur]"
| "split_from sep cur (c # cs) =
     (if c = sep then rev cur # split_from sep [] cs else split_from sep (c # cur) cs)"

definition str_split :: "string \<Rightarrow> char \<Rightarrow> string list" where
  "str_split s sep = split_from sep [] s"

text \<open>
  \<open>int(text)\<close> in base ten, as CPython reads it: white space on both sides is dropped,
  one sign may follow, then decimal digits in which single underscores may stand between
  two digits, and nothing else. White space is tab, line feed, vertical tab, form feed,
  carriage return and space, and of the code points from 128 to 255 the next-line
  character (133) and the no-break space (160). A literal of more than
  \<open>int_max_str_digits\<close> digits is refused (the interpreter's default limit). Every
  failure is a \<open>ValueError\<close>.
\<close>

definition is_space :: "char \<Rightarrow> bool" where
  "is_space c =
     (let n = (of_char c :: nat)
      in (9 \<le> n \<and> n \<le> 13) \<or> n = 32 \<or> n = 133 \<or> n = 160)"

definition is_digit :: "char \<Rightarrow> bool" where
  "is_digit c = (let n = (of_char c :: nat) in 48 \<le> n \<and> n \<le> 57)"

definition digit_value :: "char \<Rightarrow> int" where
  "digit_value c = int (of_char c) - 48"

definition is_digit_or_underscore :: "char \<Rightarrow> bool" where
  "is_digit_or_underscore c = (is_digit c \<or> c = CHR ''_'')"

fun strip_sign :: "string \<Rightarrow> bool \<times> string" where
  "strip_sign [] = (False, [])"
| "strip_sign (c # cs) =
     (if c = CHR ''+'' then (False, cs)
      else if c = CHR ''-'' then (True, cs)
      else (False, c # cs))"

text \<open>Digits, with at most one underscore between two of them; at least one digit.\<close>

fun digit_groups :: "string \<Rightarrow> bool" where
  "digit_groups [] = False"
| "digit_groups [c] = is_digit c"
| "digit_groups (c # d # cs) =
     (is_digit c \<and> (if d = CHR ''_'' then digit_groups cs else digit_groups (d # cs)))"

definition digits_value :: "string \<Rightarrow> int" where
  "digits_value ds = foldl (\<lambda>acc c. 10 * acc + digit_value c) 0 ds"

definition int_max_str_digits :: nat where
  "int_max_str_digits = 4300"

definition py_int :: "string \<Rightarrow> error + int" where
  "py_int s =
     (let (neg, s2) = strip_sign (dropWhile is_space s);
          body = takeWhile is_digit_or_underscore s2;
          rest = dropWhile is_digit_or_underscore s2;
          ds = filter is_digit body
      in if digit_groups body \<and> list_all is_space rest \<and> length ds \<le> int_max_str_digits
         then Inr ((if neg then - 1 else 1) * digits_value ds)
         else Inl ValueError)"

subsection \<open>Target parser\<close>

text \<open>The dictionary \<open>{'domain': ..., 'port': ...}\<close> that the parser returns.\<close>

record target =
  domain :: string
  port :: int

text \<open>
  The local variable \<open>port\<close> holds a string after the split and an integer after the
  default; \<open>isinstance(port, int)\<close> tells them apart.
\<close>

datatype port_value = PortStr string | PortInt int

text \<open>\<open>domain, port = parts\<close>: unpacking anything but two pieces is a \<open>ValueError\<close>.\<close>

fun unpack_pair :: "string list \<Rightarrow> error + (string \<times> port_value)" where
  "unpack_pair [a, b] = Inr (a, PortStr b)"
| "unpack_pair parts = Inl ValueError"

fun port_to_int :: "port_value \<Rightarrow> error + int" where
  "port_to_int (PortInt n) = Inr n"
| "port_to_int (PortStr t) = py_int t"

definition parse_domain_with_port :: "string \<Rightarrow> error + target" where
  "parse_domain_with_port domain_with_port =
     (case (if CHR '':'' \<in> set domain_with_port
            then unpack_pair (str_split domain_with_port CHR '':'')
            else Inr (domain_with_port, PortInt SSL_DEFAULT_PORT)) of
        Inl e \<Rightarrow> Inl e
      | Inr (d, p) \<Rightarrow>
          (case port_to_int p of
             Inl e \<Rightarrow> Inl e
           | Inr n \<Rightarrow> Inr \<lparr>domain = d, port = n\<rparr>))"

text \<open>The text left of the first colon, and the text right of it.\<close>

definition left_of_colon :: "string \<Rightarrow> string" where
  "left_of_colon s = takeWhile (\<lambda>c. c \<noteq> CHR '':'') s"

definition right_of_colon :: "string \<Rightarrow> string" where
  "right_of_colon s = drop 1 (dropWhile (\<lambda>c. c \<noteq> CHR '':'') s)"

subsection \<open>The \<open>ssl\<close> module, as far as the fetcher drives it\<close>

text \<open>
  Of an \<open>SSLContext\<close> the two settings that decide whether a handshake checks the peer:
  \<open>verify_mode\<close> and \<open>check_hostname\<close>. The library couples them: a context that checks
  host names refuses \<open>CERT_NONE\<close>, and turning the host name check on raises
  \<open>CERT_NONE\<close> to \<open>CERT_REQUIRED\<close>.
\<close>

datatype verify_mode = CERT_NONE | CERT_OPTIONAL | CERT_REQUIRED

datatype protocol = PROTOCOL_TLS | PROTOCOL_TLS_CLIENT | PROTOCOL_TLS_SERVER

record SSLContext =
  verify_mode :: verify_mode
  check_hostname :: bool

definition new_SSLContext :: "protocol \<Rightarrow> SSLContext" where
  "new_SSLContext p =
     (if p = PROTOCOL_TLS_CLIENT
      then \<lparr>verify_mode = CERT_REQUIRED, check_hostname = True\<rparr>
      else \<lparr>verify_mode = CERT_NONE, check_hostname = False\<rparr>)"

definition set_verify_mode :: "SSLContext \<Rightarrow> verify_mode \<Rightarrow> error + SSLContext" where
  "set_verify_mode ctx m =
     (if m = CERT_NONE \<and> check_hostname ctx then Inl ValueError
      else Inr (ctx\<lparr>verify_mode := m\<rparr>))"

definition set_check_hostname :: "SSLContext \<Rightarrow> bool \<Rightarrow> SSLContext" where
  "set_check_hostname ctx b =
     (if b \<and> verify_mode ctx = CERT_NONE
      then ctx\<lparr>verify_mode := CERT_REQUIRED, check_hostname := b\<rparr>
      else ctx\<lparr>check_hostname := b\<rparr>)"

text \<open>
  \<open>ssl._create_unverified_context(cert_reqs=CERT_NONE, check_hostname=False)\<close> for the
  default purpose (server authentication, hence \<open>PROTOCOL_TLS_CLIENT\<close>): the context is
  created, then \<open>check_hostname\<close> is set, then \<open>verify_mode\<close> (unless \<open>cert_reqs\<close> is
  \<open>None\<close>), then \<open>check_hostname\<close> once more when it was asked for. This is the order of
  the statements in \<open>Lib/ssl.py\<close> of CPython 3.10 and later; loading certificates and
  the key log file change neither setting and are left out.
\<close>

definition create_unverified_context :: "verify_mode option \<Rightarrow> bool \<Rightarrow> error + SSLContext" where
  "create_unverified_context cert_reqs chk =
     (let context = set_check_hostname (new_SSLContext PROTOCOL_TLS_CLIENT) chk
      in case (case cert_reqs of
                 None \<Rightarrow> Inr context
               | Some m \<Rightarrow> set_verify_mode context m) of
           Inl e \<Rightarrow> Inl e
         | Inr context' \<Rightarrow>
             Inr (if chk then set_check_hostname context' True else context'))"

text \<open>\<open>ssl.create_default_context()\<close> for the default purpose.\<close>

definition create_default_context :: "error + SSLContext" where
  "create_default_context =
     (case set_verify_mode (new_SSLContext PROTOCOL_TLS_CLIENT) CERT_REQUIRED of
        Inl e \<Rightarrow> Inl e
      | Inr context \<Rightarrow> Inr (set_check_hostname context True))"

text \<open>
  \<open>create_ssl_context\<close>. Looking up \<open>ssl._create_unverified_context\<close> raises
  \<open>AttributeError\<close> on an interpreter whose \<open>ssl\<close> module lacks it; the flag says
  whether the module has it. Only \<open>AttributeError\<close> is caught.
\<close>

definition create_ssl_context :: "bool \<Rightarrow> error + SSLContext" where
  "create_ssl_context has_unverified =
     (case (if has_unverified then create_unverified_context (Some CERT_NONE) True
            else Inl AttributeError) of
        Inl e \<Rightarrow> (if e = AttributeError then create_default_context else Inl e)
      | Inr context \<Rightarrow> Inr context)"

subsection \<open>Certificates and collaborators\<close>

text \<open>
  A distinguished name as \<open>getpeercert()\<close> gives it: a sequence of groups, each a
  sequence of (long name, value) pairs.
\<close>

type_synonym rdn_sequence = "(string \<times> string) list list"

text \<open>
  The dictionary returned by \<open>getpeercert()\<close>, with the four keys that are read here;
  \<open>None\<close> is a key that is not there.
\<close>

record certificate =
  cert_issuer :: "rdn_sequence option"
  cert_subject :: "rdn_sequence option"
  notBefore :: "string option"
  notAfter :: "string option"

definition cert_get :: "'a option \<Rightarrow> error + 'a" where
  "cert_get entry = (case entry of None \<Rightarrow> Inl KeyError | Some v \<Rightarrow> Inr v)"

text \<open>
  Everything outside the module: whether the \<open>ssl\<close> module has
  \<open>_create_unverified_context\<close>, \<open>socket.create_connection\<close> (host, port, timeout),
  the handshake of \<open>wrap_socket\<close> followed by \<open>getpeercert()\<close>, \<open>socket.gethostbyname\<close>,
  and on date-times \<open>dateutil.parser.parse\<close>, \<open>astimezone()\<close> and \<open>strftime\<close>.
  A socket is a number, a date-time a value of the type \<open>'dt\<close>.
\<close>

record 'dt world =
  has_unverified_context :: bool
  create_connection :: "string \<Rightarrow> int \<Rightarrow> nat \<Rightarrow> error + nat"
  wrap_socket_getpeercert :: "SSLContext \<Rightarrow> nat \<Rightarrow> string \<Rightarrow> error + certificate"
  gethostbyname :: "string \<Rightarrow> error + string"
  dateutil_parse :: "string \<Rightarrow> error + 'dt"
  astimezone :: "'dt \<Rightarrow> error + 'dt"
  strftime :: "'dt \<Rightarrow> string \<Rightarrow> error + string"

subsection \<open>Certificate fetcher\<close>

definition get_domain_cert :: "'dt world \<Rightarrow> string \<Rightarrow> int \<Rightarrow> error + certificate" where
  "get_domain_cert w host prt =
     (case create_ssl_context (has_unverified_context w) of
        Inl e \<Rightarrow> Inl e
      | Inr context \<Rightarrow>
          (case create_connection w host prt DEFAULT_SOCKET_TIMEOUT of
             Inl e \<Rightarrow> Inl e
           | Inr sock \<Rightarrow> wrap_socket_getpeercert w context sock host))"

definition get_domain_ip :: "'dt world \<Rightarrow> string \<Rightarrow> error + string" where
  "get_domain_ip w d = gethostbyname w d"

subsection \<open>Certificate normalizer\<close>

text \<open>
  \<open>_tuple_to_dict\<close>: the loop stores \<open>item[0][1]\<close> under \<open>item[0][0]\<close>; \<open>item[0]\<close> of a
  group without pairs is an \<open>IndexError\<close>. A pair is a two-element tuple, as
  \<open>getpeercert()\<close> builds it, so reading its two components cannot fail.
\<close>

fun tuple_to_dict_loop ::
  "(string \<rightharpoonup> string) \<Rightarrow> rdn_sequence \<Rightarrow> error + (string \<rightharpoonup> string)" where
  "tuple_to_dict_loop data [] = Inr data"
| "tuple_to_dict_loop data (item # items) =
     (case item of
        [] \<Rightarrow> Inl IndexError
      | kv # others \<Rightarrow> tuple_to_dict_loop (data(fst kv \<mapsto> snd kv)) items)"

definition tuple_to_dict :: "rdn_sequence \<Rightarrow> error + (string \<rightharpoonup> string)" where
  "tuple_to_dict cert_tuple = tuple_to_dict_loop Map.empty cert_tuple"

text \<open>\<open>_name_convert\<close>: \<open>name_map\<close> in the order it is written, \<open>data.get(value, '')\<close>.\<close>

definition name_map :: "(string \<times> string) list" where
  "name_map =
     [(''C'', ''countryName''),
      (''CN'', ''commonName''),
      (''O'', ''organizationName''),
      (''OU'', ''organizationalUnitName''),
      (''L'', ''localityName''),
      (''ST'', ''stateOrProvinceName'')]"

definition dict_get :: "(string \<rightharpoonup> string) \<Rightarrow> string \<Rightarrow> string \<Rightarrow> string" where
  "dict_get data k dflt = (case data k of None \<Rightarrow> dflt | Some v \<Rightarrow> v)"

fun name_convert_loop ::
  "(string \<rightharpoonup> string) \<Rightarrow> (string \<times> string) list \<Rightarrow> (string \<rightharpoonup> string) \<Rightarrow> (string \<rightharpoonup> string)" where
  "name_convert_loop data [] dct = dct"
| "name_convert_loop data ((key, val) # items) dct =
     name_convert_loop data items (dct(key \<mapsto> dict_get data val []))"

definition name_convert :: "(string \<rightharpoonup> string) \<Rightarrow> (string \<rightharpoonup> string)" where
  "name_convert data = name_convert_loop data name_map Map.empty"

text \<open>\<open>_parse_time\<close>: parse, convert to the local zone, render.\<close>

definition parse_time :: "'dt world \<Rightarrow> string \<Rightarrow> error + string" where
  "parse_time w time_str =
     (case dateutil_parse w time_str of
        Inl e \<Rightarrow> Inl e
      | Inr dt \<Rightarrow>
          (case astimezone w dt of
             Inl e \<Rightarrow> Inl e
           | Inr local \<Rightarrow> strftime w local DATETIME_FORMAT))"

subsection \<open>The whole check\<close>

text \<open>The dictionary returned by \<open>get_cert_info\<close>.\<close>

record cert_info =
  info_domain :: string
  ip :: string
  subject :: "string \<rightharpoonup> string"
  issuer :: "string \<rightharpoonup> string"
  start_date :: string
  expire_date :: string

text \<open>
  \<open>get_cert_info\<close>, in the order Python evaluates it: the target, the certificate, the
  two flattened names, then the entries of the result from top to bottom. The first
  exception ends the call. The parser's dictionary always has the key \<open>port\<close>, so the
  default of \<open>domain_info.get('port', SSL_DEFAULT_PORT)\<close> is never taken.
\<close>

definition bind :: "error + 'a \<Rightarrow> ('a \<Rightarrow> error + 'b) \<Rightarrow> error + 'b" where
  "bind r f = (case r of Inl e \<Rightarrow> Inl e | Inr v \<Rightarrow> f v)"

definition get_cert_info :: "'dt world \<Rightarrow> string \<Rightarrow> error + cert_info" where
  "get_cert_info w domain_with_port =
     bind (parse_domain_with_port domain_with_port) (\<lambda>domain_info.
     bind (get_domain_cert w (domain domain_info) (port domain_info)) (\<lambda>cert.
     bind (bind (cert_get (cert_issuer cert)) tuple_to_dict) (\<lambda>issuer_dict.
     bind (bind (cert_get (cert_subject cert)) tuple_to_dict) (\<lambda>subject_dict.
     bind (get_domain_ip w (domain domain_info)) (\<lambda>ip_text.
     bind (bind (cert_get (notBefore cert)) (parse_time w)) (\<lambda>start.
     bind (bind (cert_get (notAfter cert)) (parse_time w)) (\<lambda>expire.
       Inr \<lparr>info_domain = domain_with_port,
            ip = ip_text,
            subject = name_convert subject_dict,
            issuer = name_convert issuer_dict,
            start_date = start,
            expire_date = expire\<rparr>)))))))"

subsection \<open>A sample run\<close>

text \<open>
  A certificate whose second timestamp is not a date, and collaborators for an
  interpreter without \<open>_create_unverified_context\<close>: every connection succeeds and
  presents that certificate, every name resolves, and the date parser knows one
  timestamp. Date-times are seconds since the epoch here.
\<close>

definition example_cert :: certificate where
  "example_cert =
     \<lparr>cert_issuer = Some [[(''countryName'', ''US'')], [(''commonName'', ''R3'')]],
      cert_subject = Some [[(''commonName'', ''example.com'')]],
      notBefore = Some ''Jan  1 00:00:00 2030 GMT'',
      notAfter = Some ''not a date''\<rparr>"

definition example_world :: "nat world" where
  "example_world =
     \<lparr>has_unverified_context = False,
      create_connection = (\<lambda>host prt timeout. Inr 3),
      wrap_socket_getpeercert = (\<lambda>context sock host. Inr example_cert),
      gethostbyname = (\<lambda>host. Inr ''192.0.2.1''),
      dateutil_parse = (\<lambda>text. if text = ''Jan  1 00:00:00 2030 GMT'' then Inr 1893456000
                                else Inl ParserError),
      astimezone = (\<lambda>dt. Inr dt),
      strftime = (\<lambda>dt fmt. Inr ''2030-01-01 00:00:00'')\<rparr>"

section \<open>Target parser\<close>

subsection \<open>Splitting at colons\<close>

lemma split_from_unfold:
  "split_from sep cur s =
     (rev cur @ takeWhile (\<lambda>c. c \<noteq> sep) s) #
     (case dropWhile (\<lambda>c. c \<noteq> sep) s of [] \<Rightarrow> [] | x # r \<Rightarrow> split_from sep [] r)"
  by (induction s arbitrary: cur) simp_all

lemma split_from_no_sep:
  "sep \<notin> set s \<Longrightarrow> split_from sep cur s = [rev cur @ s]"
  by (induction s arbitrary: cur) auto

lemma split_from_nonempty: "1 \<le> length (split_from sep cur s)"
  by (induction s arbitrary: cur) simp_all

lemma split_from_length:
  "sep \<in> set s \<Longrightarrow> 2 \<le> length (split_from sep cur s)"
proof (induction s arbitrary: cur)
  case Nil
  then show ?case by simp
next
  case (Cons c cs)
  show ?case
  proof (cases "c = sep")
    case True
    then show ?thesis using split_from_nonempty [of sep "[]" cs] by simp
  next
    case False
    with Cons show ?thesis by simp
  qed
qed

lemma str_split_colon:
  assumes "CHR '':'' \<in> set s"
  shows "str_split s CHR '':'' = left_of_colon s # str_split (right_of_colon s) CHR '':''"
proof -
  from assms have "dropWhile (\<lambda>c. c \<noteq> CHR '':'') s \<noteq> []" by auto
  then obtain x r where dw: "dropWhile (\<lambda>c. c \<noteq> CHR '':'') s = x # r"
    by (cases "dropWhile (\<lambda>c. c \<noteq> CHR '':'') s") auto
  show ?thesis
    unfolding str_split_def left_of_colon_def right_of_colon_def
    by (subst split_from_unfold) (simp add: dw)
qed

lemma unpack_pair_long:
  "2 \<le> length ps \<Longrightarrow> unpack_pair (a # ps) = Inl ValueError"
  by (cases ps; cases "tl ps") auto

subsection \<open>No integer literal contains a colon\<close>

lemma in_set_dropWhile:
  "x \<in> set xs \<Longrightarrow> \<not> P x \<Longrightarrow> x \<in> set (dropWhile P xs)"
  by (induction xs) auto

lemma colon_not_space: "\<not> is_space CHR '':''"
  by (simp add: is_space_def)

lemma colon_not_digit_or_underscore: "\<not> is_digit_or_underscore CHR '':''"
  by (simp add: is_digit_or_underscore_def is_digit_def)

lemma strip_sign_keeps_colon:
  "CHR '':'' \<in> set s \<Longrightarrow> CHR '':'' \<in> set (snd (strip_sign s))"
  by (cases s) auto

lemma py_int_colon:
  assumes "CHR '':'' \<in> set t"
  shows "py_int t = Inl ValueError"
proof -
  obtain neg s2 where ss: "strip_sign (dropWhile is_space t) = (neg, s2)"
    by (cases "strip_sign (dropWhile is_space t)")
  from assms have "CHR '':'' \<in> set (dropWhile is_space t)"
    by (rule in_set_dropWhile) (rule colon_not_space)
  then have "CHR '':'' \<in> set s2"
    using strip_sign_keeps_colon [of "dropWhile is_space t"] ss by simp
  then have "CHR '':'' \<in> set (dropWhile is_digit_or_underscore s2)"
    by (rule in_set_dropWhile) (rule colon_not_digit_or_underscore)
  then have "\<not> list_all is_space (dropWhile is_digit_or_underscore s2)"
    using colon_not_space by (auto simp: list_all_iff)
  then show ?thesis
    by (simp add: py_int_def ss)
qed

lemma py_int_error: "py_int t = Inl e \<Longrightarrow> e = ValueError"
  by (auto simp: py_int_def Let_def split: prod.splits if_splits)

subsection \<open>The two branches of the parser\<close>

lemma parse_with_colon:
  assumes "CHR '':'' \<in> set s"
  shows "parse_domain_with_port s =
           (case py_int (right_of_colon s) of
              Inl e \<Rightarrow> Inl e
            | Inr n \<Rightarrow> Inr \<lparr>domain = left_of_colon s, port = n\<rparr>)"
proof (cases "CHR '':'' \<in> set (right_of_colon s)")
  case True
  then have "2 \<le> length (str_split (right_of_colon s) CHR '':'')"
    unfolding str_split_def by (rule split_from_length)
  then have "unpack_pair (str_split s CHR '':'') = Inl ValueError"
    by (simp add: str_split_colon [OF assms] unpack_pair_long)
  with assms True show ?thesis
    by (simp add: parse_domain_with_port_def py_int_colon)
next
  case False
  then have "str_split s CHR '':'' = [left_of_colon s, right_of_colon s]"
    by (simp add: str_split_colon [OF assms]) (simp add: str_split_def split_from_no_sep)
  with assms show ?thesis
    by (simp add: parse_domain_with_port_def)
qed

lemma parse_without_colon:
  "CHR '':'' \<notin> set s \<Longrightarrow> parse_domain_with_port s = Inr \<lparr>domain = s, port = 443\<rparr>"
  by (simp add: parse_domain_with_port_def SSL_DEFAULT_PORT_def)

lemma parse_error: "parse_domain_with_port s = Inl e \<Longrightarrow> e = ValueError"
  by (cases "CHR '':'' \<in> set s")
     (auto simp: parse_with_colon parse_without_colon split: sum.splits dest: py_int_error)

text \<open>
  Claim C2. For every input, \<open>parse_domain_with_port\<close> behaves as follows. If the input
  contains a colon, the host name is the text left of the (first) colon and the port is
  the integer parse of the text right of it; the call fails exactly as that parse fails,
  which covers a second colon, since no text with a colon is an integer literal. If the
  input contains no colon, the host name is the whole input and the port is 443.
  In particular \<open>host\<close> yields port 443 and \<open>host:8443\<close> yields port 8443.
\<close>

theorem parse_domain_with_port_spec:
  "parse_domain_with_port s =
     (if CHR '':'' \<in> set s
      then (case py_int (right_of_colon s) of
              Inl e \<Rightarrow> Inl e
            | Inr n \<Rightarrow> Inr \<lparr>domain = left_of_colon s, port = n\<rparr>)
      else Inr \<lparr>domain = s, port = 443\<rparr>)
   \<and> parse_domain_with_port ''host'' = Inr \<lparr>domain = ''host'', port = 443\<rparr>
   \<and> parse_domain_with_port ''host:8443'' = Inr \<lparr>domain = ''host'', port = 8443\<rparr>"
proof (intro conjI)
  show "parse_domain_with_port s =
     (if CHR '':'' \<in> set s
      then (case py_int (right_of_colon s) of
              Inl e \<Rightarrow> Inl e
            | Inr n \<Rightarrow> Inr \<lparr>domain = left_of_colon s, port = n\<rparr>)
      else Inr \<lparr>domain = s, port = 443\<rparr>)"
    by (simp add: parse_with_colon parse_without_colon)
  show "parse_domain_with_port ''host'' = Inr \<lparr>domain = ''host'', port = 443\<rparr>"
    by code_simp
  show "parse_domain_with_port ''host:8443'' = Inr \<lparr>domain = ''host'', port = 8443\<rparr>"
    by code_simp
qed

text \<open>
  Against claim C3 as it is written: an empty host name is not refused, and neither is a
  negative port.
\<close>

theorem parse_accepts_empty_host_and_negative_port:
  "parse_domain_with_port '':443'' = Inr \<lparr>domain = '''', port = 443\<rparr>
   \<and> parse_domain_with_port ''host:-1'' = Inr \<lparr>domain = ''host'', port = - 1\<rparr>"
  by code_simp

text \<open>
  Claim C3, amended. \<open>parse_domain_with_port\<close> fails exactly when the input contains a
  colon and the text right of the first colon is not an integer literal that \<open>int\<close>
  accepts (as for \<open>host:notanumber\<close>); the failure is always a \<open>ValueError\<close>. The host
  name is not examined and a sign is part of the literal.
\<close>

theorem parse_fails_iff:
  "(parse_domain_with_port s = Inl ValueError) =
     (CHR '':'' \<in> set s \<and> py_int (right_of_colon s) = Inl ValueError)
   \<and> (\<forall>e. parse_domain_with_port s = Inl e \<longrightarrow> e = ValueError)"
proof (intro conjI allI impI)
  show "(parse_domain_with_port s = Inl ValueError) =
     (CHR '':'' \<in> set s \<and> py_int (right_of_colon s) = Inl ValueError)"
  proof (cases "CHR '':'' \<in> set s")
    case True
    then show ?thesis
      by (auto simp: parse_with_colon split: sum.splits dest: py_int_error)
  next
    case False
    then show ?thesis by (simp add: parse_without_colon)
  qed
next
  fix e assume "parse_domain_with_port s = Inl e"
  then show "e = ValueError" by (rule parse_error)
qed

theorem parse_fails_iff_witness:
  "CHR '':'' \<in> set ''host:notanumber''
   \<and> py_int (right_of_colon ''host:notanumber'') = Inl ValueError
   \<and> parse_domain_with_port ''host:notanumber'' = Inl ValueError"
proof -
  have h: "CHR '':'' \<in> set ''host:notanumber''
     \<and> py_int (right_of_colon ''host:notanumber'') = Inl ValueError"
    by code_simp
  with parse_fails_iff [of "''host:notanumber''"] show ?thesis by blast
qed

text \<open>Against claim C4 as it is written: ports outside 1 to 65535 are returned.\<close>

theorem parse_port_out_of_range:
  "parse_domain_with_port ''host:0'' = Inr \<lparr>domain = ''host'', port = 0\<rparr>
   \<and> parse_domain_with_port ''host:99999'' = Inr \<lparr>domain = ''host'', port = 99999\<rparr>"
  by code_simp

text \<open>
  Claim C4, amended. The port of a returned target is 443 when the input has no colon,
  and otherwise the integer that the text right of the colon denotes, whatever its value:
  the parser enforces no range, so the port lies in 1 to 65535 exactly when the input has
  no colon or that integer lies in 1 to 65535.
\<close>

theorem parse_port_range:
  assumes "parse_domain_with_port s = Inr t"
  shows "(if CHR '':'' \<in> set s then py_int (right_of_colon s) = Inr (port t) else port t = 443)
    \<and> ((1 \<le> port t \<and> port t \<le> 65535) =
        (CHR '':'' \<notin> set s \<or> (\<exists>n. py_int (right_of_colon s) = Inr n \<and> 1 \<le> n \<and> n \<le> 65535)))"
proof (cases "CHR '':'' \<in> set s")
  case True
  with assms have "py_int (right_of_colon s) = Inr (port t)"
    by (auto simp: parse_with_colon split: sum.splits)
  with True show ?thesis by simp
next
  case False
  with assms have "port t = 443"
    by (auto simp: parse_without_colon)
  with False show ?thesis by simp
qed

theorem parse_port_range_witness:
  "parse_domain_with_port ''host:8443'' = Inr \<lparr>domain = ''host'', port = 8443\<rparr>
   \<and> py_int (right_of_colon ''host:8443'') = Inr 8443"
proof -
  have h: "parse_domain_with_port ''host:8443'' = Inr \<lparr>domain = ''host'', port = 8443\<rparr>"
    by code_simp
  have c: "CHR '':'' \<in> set ''host:8443''" by simp
  from parse_port_range [OF h] c show ?thesis using h by simp
qed

section \<open>Certificate normalizer\<close>

subsection \<open>Flattening a distinguished name\<close>
lemma map_upd_add: "m(k \<mapsto> v) ++ n = m ++ ([k \<mapsto> v] ++ n)"
  by (rule ext) (simp add: map_add_def split: option.splits)

lemma map_of_rev_Cons: "map_of (rev (kv # ps)) = [fst kv \<mapsto> snd kv] ++ map_of (rev ps)"
  by (simp only: rev.simps map_of_append map_of.simps)

lemma tuple_to_dict_loop_Inr:
  "[] \<notin> set gs \<Longrightarrow>
     tuple_to_dict_loop data gs = Inr (data ++ map_of (rev (map hd gs)))"
proof (induction gs arbitrary: data)
  case Nil
  then show ?case by simp
next
  case (Cons g gs)
  then obtain kv others where g: "g = kv # others" by (cases g) auto
  from Cons.prems have "[] \<notin> set gs" by simp
  then have "tuple_to_dict_loop (data(fst kv \<mapsto> snd kv)) gs =
      Inr (data(fst kv \<mapsto> snd kv) ++ map_of (rev (map hd gs)))"
    by (rule Cons.IH)
  also have "data(fst kv \<mapsto> snd kv) ++ map_of (rev (map hd gs)) =
      data ++ map_of (rev (map hd (g # gs)))"
    by (simp only: g list.map list.sel map_of_rev_Cons map_upd_add [symmetric])
  finally show ?case
    by (simp only: g tuple_to_dict_loop.simps list.case)
qed

lemma tuple_to_dict_loop_Inl:
  "[] \<in> set gs \<Longrightarrow> tuple_to_dict_loop data gs = Inl IndexError"
proof (induction gs arbitrary: data)
  case Nil
  then show ?case by simp
next
  case (Cons g gs)
  then show ?case by (cases g) auto
qed

lemma map_of_rev_last:
  "i < length ps \<Longrightarrow> fst (ps ! i) = k \<Longrightarrow>
   (\<forall>j. i < j \<and> j < length ps \<longrightarrow> fst (ps ! j) \<noteq> k) \<Longrightarrow>
   map_of (rev ps) k = Some (snd (ps ! i))"
proof (induction ps rule: rev_induct)
  case Nil
  then show ?case by simp
next
  case (snoc q qs)
  show ?case
  proof (cases "i = length qs")
    case True
    with snoc.prems(2) have "fst q = k" by simp
    with True show ?thesis by (cases q) simp
  next
    case False
    with snoc.prems(1) have i: "i < length qs" by simp
    from snoc.prems(3) [rule_format, of "length qs"] i
    have "fst ((qs @ [q]) ! length qs) \<noteq> k" by simp
    then have qk: "fst q \<noteq> k" by simp
    have "\<forall>j. i < j \<and> j < length qs \<longrightarrow> fst (qs ! j) \<noteq> k"
    proof (intro allI impI)
      fix j assume j: "i < j \<and> j < length qs"
      with snoc.prems(3) [rule_format, of j] have "fst ((qs @ [q]) ! j) \<noteq> k" by simp
      with j show "fst (qs ! j) \<noteq> k" by (simp add: nth_append)
    qed
    with snoc.IH i snoc.prems(2) have "map_of (rev qs) k = Some (snd (qs ! i))"
      by (simp add: nth_append)
    with qk i show ?thesis by (cases q) (simp add: nth_append)
  qed
qed

lemma one_pair_groups: "[] \<notin> set (map (\<lambda>p. [p]) ps) \<and> map hd (map (\<lambda>p. [p]) ps) = ps"
  by (induction ps) auto

text \<open>
  Claim C6. Flattening follows last-write-wins. For every sequence of one-pair groups,
  \<open>_tuple_to_dict\<close> returns the mapping built from left to right, and a long name that
  occurs in one or more groups is mapped to the value of the last group carrying it:
  if group \<open>i\<close> carries the name and no later group does, the value is that of group
  \<open>i\<close>.
\<close>

theorem tuple_to_dict_last_write_wins:
  assumes "i < length ps" and "fst (ps ! i) = k"
    and "\<forall>j. i < j \<and> j < length ps \<longrightarrow> fst (ps ! j) \<noteq> k"
  shows "tuple_to_dict (map (\<lambda>p. [p]) ps) = Inr (map_of (rev ps))
    \<and> map_of (rev ps) k = Some (snd (ps ! i))"
proof
  show "tuple_to_dict (map (\<lambda>p. [p]) ps) = Inr (map_of (rev ps))"
    unfolding tuple_to_dict_def
    using one_pair_groups [of ps] by (simp add: tuple_to_dict_loop_Inr)
  show "map_of (rev ps) k = Some (snd (ps ! i))"
    using assms by (rule map_of_rev_last)
qed

theorem tuple_to_dict_last_write_wins_witness:
  "tuple_to_dict [[(''commonName'', ''first'')], [(''countryName'', ''US'')], [(''commonName'', ''second'')]]
     = Inr (map_of [(''commonName'', ''second''), (''countryName'', ''US''), (''commonName'', ''first'')])
   \<and> map_of [(''commonName'', ''second''), (''countryName'', ''US''), (''commonName'', ''first'')]
       ''commonName'' = Some ''second''"
proof -
  let ?ps = "[(''commonName'', ''first''), (''countryName'', ''US''), (''commonName'', ''second'')]"
  have a: "2 < length ?ps" by simp
  have b: "fst (?ps ! 2) = ''commonName''" by simp
  have c: "\<forall>j. 2 < j \<and> j < length ?ps \<longrightarrow> fst (?ps ! j) \<noteq> ''commonName''" by simp
  from tuple_to_dict_last_write_wins [OF a b c] show ?thesis by simp
qed

text \<open>
  Against claim C7 as it is written: a group with zero pairs is not skipped, the call
  ends with an \<open>IndexError\<close>.
\<close>

theorem tuple_to_dict_empty_group_raises:
  "tuple_to_dict [[(''commonName'', ''example.com'')], []] = Inl IndexError"
  by (simp add: tuple_to_dict_def)

text \<open>
  Claim C7, amended. \<open>_tuple_to_dict\<close> raises \<open>IndexError\<close> exactly when some group has
  zero pairs. When every group has at least one pair it returns a flat mapping, in which
  a group with several pairs contributes its first pair and nothing else.
\<close>

theorem tuple_to_dict_total_iff:
  "(tuple_to_dict gs = Inl IndexError) = ([] \<in> set gs)
   \<and> ([] \<notin> set gs \<longrightarrow> tuple_to_dict gs = Inr (map_of (rev (map hd gs))))"
proof (cases "[] \<in> set gs")
  case True
  then show ?thesis by (simp add: tuple_to_dict_def tuple_to_dict_loop_Inl)
next
  case False
  then show ?thesis by (simp add: tuple_to_dict_def tuple_to_dict_loop_Inr)
qed

theorem tuple_to_dict_total_iff_witness:
  "[] \<notin> set [[(''commonName'', ''a''), (''organizationName'', ''b'')], [(''countryName'', ''US'')]]
   \<and> tuple_to_dict [[(''commonName'', ''a''), (''organizationName'', ''b'')], [(''countryName'', ''US'')]]
       = Inr (map_of [(''countryName'', ''US''), (''commonName'', ''a'')])"
proof -
  let ?gs = "[[(''commonName'', ''a''), (''organizationName'', ''b'')], [(''countryName'', ''US'')]]"
  have h: "[] \<notin> set ?gs" by simp
  from tuple_to_dict_total_iff [of ?gs, THEN conjunct2, rule_format, OF h] h
  show ?thesis by simp
qed

subsection \<open>Short codes\<close>

lemma name_convert_eq:
  "name_convert data =
     [''C'' \<mapsto> dict_get data ''countryName'' [],
      ''CN'' \<mapsto> dict_get data ''commonName'' [],
      ''O'' \<mapsto> dict_get data ''organizationName'' [],
      ''OU'' \<mapsto> dict_get data ''organizationalUnitName'' [],
      ''L'' \<mapsto> dict_get data ''localityName'' [],
      ''ST'' \<mapsto> dict_get data ''stateOrProvinceName'' []]"
  by (simp add: name_convert_def name_map_def)

lemma dom_name_convert:
  "dom (name_convert data) = {''C'', ''CN'', ''O'', ''OU'', ''L'', ''ST''}"
  unfolding name_convert_eq by auto

lemma name_convert_lookup:
  "name_convert data ''C'' = Some (dict_get data ''countryName'' [])"
  "name_convert data ''CN'' = Some (dict_get data ''commonName'' [])"
  "name_convert data ''O'' = Some (dict_get data ''organizationName'' [])"
  "name_convert data ''OU'' = Some (dict_get data ''organizationalUnitName'' [])"
  "name_convert data ''L'' = Some (dict_get data ''localityName'' [])"
  "name_convert data ''ST'' = Some (dict_get data ''stateOrProvinceName'' [])"
  by (simp_all add: name_convert_eq)

lemma name_map_cases:
  assumes "(k, l) \<in> set name_map"
  shows "(k = ''C'' \<and> l = ''countryName'') \<or> (k = ''CN'' \<and> l = ''commonName'')
    \<or> (k = ''O'' \<and> l = ''organizationName'') \<or> (k = ''OU'' \<and> l = ''organizationalUnitName'')
    \<or> (k = ''L'' \<and> l = ''localityName'') \<or> (k = ''ST'' \<and> l = ''stateOrProvinceName'')"
proof -
  from assms have "(k, l) = (''C'', ''countryName'') \<or> (k, l) = (''CN'', ''commonName'')
    \<or> (k, l) = (''O'', ''organizationName'') \<or> (k, l) = (''OU'', ''organizationalUnitName'')
    \<or> (k, l) = (''L'', ''localityName'') \<or> (k, l) = (''ST'', ''stateOrProvinceName'')"
    unfolding name_map_def by (simp only: list.set insert_iff empty_iff simp_thms)
  then show ?thesis by (simp only: prod.inject)
qed

lemma name_convert_absent:
  assumes "(k, l) \<in> set name_map" and "data l = None"
  shows "name_convert data k = Some []"
  using name_map_cases [OF assms(1)] assms(2)
  by (elim disjE conjE) (simp_all only: name_convert_lookup dict_get_def option.case)

text \<open>
  Claim C5. For every flattened mapping, the result of \<open>_name_convert\<close> has all six
  short codes \<open>C\<close>, \<open>CN\<close>, \<open>O\<close>, \<open>OU\<close>, \<open>L\<close>, \<open>ST\<close> as keys, and a short code whose
  long name is absent from the input maps to the empty string. The input with
  \<open>commonName\<close> \<open>example.com\<close> and \<open>organizationName\<close> \<open>Example Inc\<close> yields \<open>CN\<close>
  \<open>example.com\<close>, \<open>O\<close> \<open>Example Inc\<close> and the empty string for the other four.
\<close>

theorem name_convert_all_keys:
  "dom (name_convert data) = {''C'', ''CN'', ''O'', ''OU'', ''L'', ''ST''}
   \<and> (\<forall>k l. (k, l) \<in> set name_map \<and> data l = None \<longrightarrow> name_convert data k = Some '''')
   \<and> name_convert [''commonName'' \<mapsto> ''example.com'', ''organizationName'' \<mapsto> ''Example Inc''] =
       [''C'' \<mapsto> '''', ''CN'' \<mapsto> ''example.com'', ''O'' \<mapsto> ''Example Inc'',
        ''OU'' \<mapsto> '''', ''L'' \<mapsto> '''', ''ST'' \<mapsto> '''']"
proof (intro conjI allI impI)
  show "dom (name_convert data) = {''C'', ''CN'', ''O'', ''OU'', ''L'', ''ST''}"
    by (rule dom_name_convert)
next
  fix k l assume "(k, l) \<in> set name_map \<and> data l = None"
  then show "name_convert data k = Some ''''"
    using name_convert_absent [of k l data] by simp
next
  show "name_convert [''commonName'' \<mapsto> ''example.com'', ''organizationName'' \<mapsto> ''Example Inc''] =
       [''C'' \<mapsto> '''', ''CN'' \<mapsto> ''example.com'', ''O'' \<mapsto> ''Example Inc'',
        ''OU'' \<mapsto> '''', ''L'' \<mapsto> '''', ''ST'' \<mapsto> '''']"
    unfolding name_convert_eq by (simp add: dict_get_def)
qed

theorem name_convert_all_keys_witness:
  "(''OU'', ''organizationalUnitName'') \<in> set name_map
   \<and> [''commonName'' \<mapsto> ''example.com''] ''organizationalUnitName'' = None
   \<and> name_convert [''commonName'' \<mapsto> ''example.com''] ''OU'' = Some ''''"
proof -
  have h: "(''OU'', ''organizationalUnitName'') \<in> set name_map
     \<and> [''commonName'' \<mapsto> ''example.com''] ''organizationalUnitName'' = None"
    by (simp add: name_map_def)
  note inst = name_convert_all_keys [of "[''commonName'' \<mapsto> ''example.com'']",
      THEN conjunct2, THEN conjunct1, rule_format,
      of "''OU''" "''organizationalUnitName''"]
  from h inst [OF h] show ?thesis by (simp only: simp_thms)
qed

text \<open>
  Claim C10. The result of \<open>_name_convert\<close> has exactly the six short codes as keys, and
  it depends only on the input at the six long names: two inputs that agree there give
  equal results, whatever else they hold.
\<close>

theorem name_convert_only_six:
  "dom (name_convert d1) = {''C'', ''CN'', ''O'', ''OU'', ''L'', ''ST''}
   \<and> ((\<forall>l \<in> {''countryName'', ''commonName'', ''organizationName'',
               ''organizationalUnitName'', ''localityName'', ''stateOrProvinceName''}.
          d1 l = d2 l)
        \<longrightarrow> name_convert d1 = name_convert d2)"
proof (intro conjI impI)
  show "dom (name_convert d1) = {''C'', ''CN'', ''O'', ''OU'', ''L'', ''ST''}"
    by (rule dom_name_convert)
next
  assume "\<forall>l \<in> {''countryName'', ''commonName'', ''organizationName'',
               ''organizationalUnitName'', ''localityName'', ''stateOrProvinceName''}.
          d1 l = d2 l"
  then have "dict_get d1 ''countryName'' [] = dict_get d2 ''countryName'' []"
    "dict_get d1 ''commonName'' [] = dict_get d2 ''commonName'' []"
    "dict_get d1 ''organizationName'' [] = dict_get d2 ''organizationName'' []"
    "dict_get d1 ''organizationalUnitName'' [] = dict_get d2 ''organizationalUnitName'' []"
    "dict_get d1 ''localityName'' [] = dict_get d2 ''localityName'' []"
    "dict_get d1 ''stateOrProvinceName'' [] = dict_get d2 ''stateOrProvinceName'' []"
    by (simp_all add: dict_get_def)
  then show "name_convert d1 = name_convert d2"
    unfolding name_convert_eq by simp
qed

theorem name_convert_only_six_witness:
  "[''commonName'' \<mapsto> ''example.com'', ''emailAddress'' \<mapsto> ''a@example.com''] ''emailAddress''
     \<noteq> [''commonName'' \<mapsto> ''example.com''] ''emailAddress''
   \<and> name_convert [''commonName'' \<mapsto> ''example.com'', ''emailAddress'' \<mapsto> ''a@example.com'']
       = name_convert [''commonName'' \<mapsto> ''example.com'']"
proof -
  have h: "\<forall>l \<in> {''countryName'', ''commonName'', ''organizationName'',
               ''organizationalUnitName'', ''localityName'', ''stateOrProvinceName''}.
      [''commonName'' \<mapsto> ''example.com'', ''emailAddress'' \<mapsto> ''a@example.com''] l
        = [''commonName'' \<mapsto> ''example.com''] l"
    by simp
  have d: "[''commonName'' \<mapsto> ''example.com'', ''emailAddress'' \<mapsto> ''a@example.com''] ''emailAddress''
     \<noteq> [''commonName'' \<mapsto> ''example.com''] ''emailAddress''"
    by simp
  from name_convert_only_six
    [of "[''commonName'' \<mapsto> ''example.com'', ''emailAddress'' \<mapsto> ''a@example.com'']"
        "[''commonName'' \<mapsto> ''example.com'']"]
  have "(\<forall>l \<in> {''countryName'', ''commonName'', ''organizationName'',
               ''organizationalUnitName'', ''localityName'', ''stateOrProvinceName''}.
      [''commonName'' \<mapsto> ''example.com'', ''emailAddress'' \<mapsto> ''a@example.com''] l
        = [''commonName'' \<mapsto> ''example.com''] l)
    \<longrightarrow> name_convert [''commonName'' \<mapsto> ''example.com'', ''emailAddress'' \<mapsto> ''a@example.com'']
       = name_convert [''commonName'' \<mapsto> ''example.com'']"
    by (rule conjunct2)
  with h have "name_convert [''commonName'' \<mapsto> ''example.com'', ''emailAddress'' \<mapsto> ''a@example.com'']
       = name_convert [''commonName'' \<mapsto> ''example.com'']"
    by (rule_tac mp)
  with d show ?thesis by (rule_tac conjI)
qed

section \<open>Certificate fetcher\<close>

lemma create_ssl_context_True: "create_ssl_context True = Inl ValueError"
  by (simp add: create_ssl_context_def create_unverified_context_def new_SSLContext_def
      set_check_hostname_def set_verify_mode_def)

lemma create_ssl_context_False:
  "create_ssl_context False = Inr \<lparr>verify_mode = CERT_REQUIRED, check_hostname = True\<rparr>"
  by (simp add: create_ssl_context_def create_default_context_def new_SSLContext_def
      set_check_hostname_def set_verify_mode_def)

text \<open>
  With \<open>check_hostname=True\<close> the library never hands out a context that skips
  verification, whatever \<open>cert_reqs\<close> is.
\<close>

lemma set_check_hostname_True:
  "verify_mode (set_check_hostname ctx True) \<noteq> CERT_NONE
   \<and> check_hostname (set_check_hostname ctx True)"
  by (simp add: set_check_hostname_def)

lemma create_unverified_context_checked:
  assumes "create_unverified_context cert_reqs True = Inr ctx"
  shows "verify_mode ctx \<noteq> CERT_NONE \<and> check_hostname ctx"
  using assms set_check_hostname_True
  by (auto simp: create_unverified_context_def Let_def split: sum.splits)

text \<open>
  Claim C1, evaluated. The claim asks \<open>create_ssl_context\<close> for a context with chain
  verification off, so that \<open>get_domain_cert\<close> returns the certificate of a host whose
  certificate is not trusted. The function calls
  \<open>_create_unverified_context(check_hostname=True)\<close>: where the \<open>ssl\<close> module has that
  function the call raises \<open>ValueError\<close>, which \<open>except AttributeError\<close> does not catch,
  and \<open>get_domain_cert\<close> fails for every host and port before it connects; where the
  module lacks it the result is the default, verifying context.
\<close>

theorem create_ssl_context_never_unverified:
  "create_ssl_context True = Inl ValueError
   \<and> create_ssl_context False = Inr \<lparr>verify_mode = CERT_REQUIRED, check_hostname = True\<rparr>
   \<and> get_domain_cert (w\<lparr>has_unverified_context := True\<rparr>) host prt = Inl ValueError"
  by (simp add: create_ssl_context_True create_ssl_context_False get_domain_cert_def)

section \<open>The whole check\<close>

lemma parse_time_fails:
  "dateutil_parse w ts = Inl e \<Longrightarrow> parse_time w ts = Inl e"
  by (simp add: parse_time_def)

lemma get_cert_info_Inr:
  assumes "get_cert_info w s = Inr info"
  shows "\<exists>t cert nb na. parse_domain_with_port s = Inr t
      \<and> get_domain_cert w (domain t) (port t) = Inr cert
      \<and> notBefore cert = Some nb \<and> parse_time w nb = Inr (start_date info)
      \<and> notAfter cert = Some na \<and> parse_time w na = Inr (expire_date info)"
  using assms
  by (auto simp: get_cert_info_def bind_def cert_get_def split: sum.splits option.splits)

text \<open>
  Claim C9. When the date parser fails on a timestamp, \<open>_parse_time\<close> fails with the
  parser's error, and \<open>get_cert_info\<close> returns no summary for a certificate that has
  that timestamp as \<open>notBefore\<close> or \<open>notAfter\<close>; the error it ends with is the parser's
  as soon as the steps before the timestamp went through.
\<close>

theorem unparseable_timestamp_aborts:
  assumes "dateutil_parse w ts = Inl e"
  shows "parse_time w ts = Inl e
    \<and> (\<forall>t cert. parse_domain_with_port s = Inr t
          \<and> get_domain_cert w (domain t) (port t) = Inr cert
          \<and> (notBefore cert = Some ts \<or> notAfter cert = Some ts)
        \<longrightarrow> (\<exists>e'. get_cert_info w s = Inl e'))
    \<and> (\<forall>t cert i_dict s_dict addr. parse_domain_with_port s = Inr t
          \<and> get_domain_cert w (domain t) (port t) = Inr cert
          \<and> bind (cert_get (cert_issuer cert)) tuple_to_dict = Inr i_dict
          \<and> bind (cert_get (cert_subject cert)) tuple_to_dict = Inr s_dict
          \<and> get_domain_ip w (domain t) = Inr addr
          \<and> (notBefore cert = Some ts
              \<or> (\<exists>start. bind (cert_get (notBefore cert)) (parse_time w) = Inr start)
                  \<and> notAfter cert = Some ts)
        \<longrightarrow> get_cert_info w s = Inl e)"
proof (intro conjI allI impI)
  from assms show pt: "parse_time w ts = Inl e" by (rule parse_time_fails)
  {
    fix t cert
    assume h: "parse_domain_with_port s = Inr t
          \<and> get_domain_cert w (domain t) (port t) = Inr cert
          \<and> (notBefore cert = Some ts \<or> notAfter cert = Some ts)"
    show "\<exists>e'. get_cert_info w s = Inl e'"
    proof (cases "get_cert_info w s")
      case (Inl e')
      then show ?thesis by simp
    next
      case (Inr info)
      from get_cert_info_Inr [OF this] h pt show ?thesis by auto
    qed
  }
  {
    fix t cert i_dict s_dict addr
    assume h: "parse_domain_with_port s = Inr t
          \<and> get_domain_cert w (domain t) (port t) = Inr cert
          \<and> bind (cert_get (cert_issuer cert)) tuple_to_dict = Inr i_dict
          \<and> bind (cert_get (cert_subject cert)) tuple_to_dict = Inr s_dict
          \<and> get_domain_ip w (domain t) = Inr addr
          \<and> (notBefore cert = Some ts
              \<or> (\<exists>start. bind (cert_get (notBefore cert)) (parse_time w) = Inr start)
                  \<and> notAfter cert = Some ts)"
    then have "bind (cert_get (notBefore cert)) (parse_time w) = Inl e
      \<or> (\<exists>start. bind (cert_get (notBefore cert)) (parse_time w) = Inr start)
          \<and> bind (cert_get (notAfter cert)) (parse_time w) = Inl e"
      using pt by (auto simp: bind_def cert_get_def)
    with h show "get_cert_info w s = Inl e"
      by (auto simp: get_cert_info_def bind_def [of "parse_domain_with_port s"]
          bind_def [of "get_domain_cert w (domain t) (port t)"]
          bind_def [of "Inr i_dict"] bind_def [of "Inr s_dict"] bind_def [of "Inr addr"]
          bind_def [of "Inl e"] bind_def [of "Inr start" for start])
  }
qed

theorem unparseable_timestamp_aborts_witness:
  "dateutil_parse example_world ''not a date'' = Inl ParserError
   \<and> parse_time example_world ''not a date'' = Inl ParserError
   \<and> get_cert_info example_world ''example.com'' = Inl ParserError"
proof -
  let ?t = "\<lparr>domain = ''example.com'', port = 443\<rparr>"
  have h: "dateutil_parse example_world ''not a date'' = Inl ParserError"
    by (simp add: example_world_def)
  have p: "parse_domain_with_port ''example.com'' = Inr ?t"
    by (simp add: parse_without_colon)
  have c: "get_domain_cert example_world (domain ?t) (port ?t) = Inr example_cert"
    by (simp add: get_domain_cert_def create_ssl_context_False example_world_def)
  have i: "bind (cert_get (cert_issuer example_cert)) tuple_to_dict =
      Inr [''countryName'' \<mapsto> ''US'', ''commonName'' \<mapsto> ''R3'']"
    by (simp add: bind_def cert_get_def example_cert_def tuple_to_dict_def)
  have s: "bind (cert_get (cert_subject example_cert)) tuple_to_dict =
      Inr [''commonName'' \<mapsto> ''example.com'']"
    by (simp add: bind_def cert_get_def example_cert_def tuple_to_dict_def)
  have a: "get_domain_ip example_world (domain ?t) = Inr ''192.0.2.1''"
    by (simp add: get_domain_ip_def example_world_def)
  have b: "bind (cert_get (notBefore example_cert)) (parse_time example_world) =
      Inr ''2030-01-01 00:00:00''"
    by (simp add: bind_def cert_get_def example_cert_def parse_time_def example_world_def)
  have n: "notAfter example_cert = Some ''not a date''"
    by (simp add: example_cert_def)
  note inst = unparseable_timestamp_aborts [OF h, of "''example.com''"]
  from inst have "parse_time example_world ''not a date'' = Inl ParserError"
    by (rule conjunct1)
  moreover from inst [THEN conjunct2, THEN conjunct2, rule_format,
      of ?t example_cert "[''countryName'' \<mapsto> ''US'', ''commonName'' \<mapsto> ''R3'']"
         "[''commonName'' \<mapsto> ''example.com'']" "''192.0.2.1''"]
    p c i s a b n
  have "get_cert_info example_world ''example.com'' = Inl ParserError"
    by (simp only: simp_thms exI)
  ultimately show ?thesis using h by (simp only: simp_thms)
qed

end
